theory Spec2Isabelle
  imports Main "HOL-Library.Word"
begin

unbundle bit_operations_syntax

section \<open>Protocol.h: the message and the protocol constants\<close>

text \<open>
  Bytes are \<open>uint8_t\<close>. A \<open>float\<close> is modelled by its 32-bit IEEE-754 object
  representation: the codec only copies its four bytes (\<open>reinterpret_cast\<close> in
  \<open>serialize\<close>, \<open>memcpy\<close> in \<open>deserialize\<close>), in the byte order of the host, taken
  here to be little-endian.

  \<open>UnityMessage::Type\<close> is an \<open>enum class\<close> without an explicit underlying type, so its
  underlying type is \<open>int\<close> and a \<open>static_cast\<close> can put any value of that type
  into it. It is modelled as a 32-bit word; the five enumerators are the values 0 to 4.
\<close>

type_synonym u8 = "8 word"
type_synonym float32 = "32 word"
type_synonym Type = "32 word"

abbreviation CONNECT :: Type where "CONNECT \<equiv> 0"
abbreviation PIN_REQUEST :: Type where "PIN_REQUEST \<equiv> 1"
abbreviation PIN_RESPONSE :: Type where "PIN_RESPONSE \<equiv> 2"
abbreviation SENSOR_DATA :: Type where "SENSOR_DATA \<equiv> 3"
abbreviation ERROR_STATE :: Type where "ERROR_STATE \<equiv> 4"

record UnityMessage =
  type :: Type
  pin :: "u8 list"
  val :: float32
  error :: "u8 list"

abbreviation PROTOCOL_VERSION :: "32 word" where "PROTOCOL_VERSION \<equiv> 1"

abbreviation MAX_MESSAGE_SIZE :: nat where "MAX_MESSAGE_SIZE \<equiv> 1024"

text \<open>
  The outcome of a call that can throw. \<open>ProtocolError\<close> carries the text given to the
  exception's constructor. \<open>OutOfBounds\<close> is not an exception of the program: it stands
  for a read outside the vector (undefined behaviour in C++), so that its absence can be
  stated.
\<close>

datatype failure = ProtocolError string | OutOfBounds

section \<open>Protocol.cpp\<close>

text \<open>
  The four bytes of a 32-bit object (a \<open>float\<close>, or the \<open>uint32_t\<close> size prefix of a
  frame), lowest address first, and the object read back from four bytes.
\<close>

definition store32 :: "32 word \<Rightarrow> u8 list" where
  "store32 v = [ucast v, ucast (drop_bit 8 v), ucast (drop_bit 16 v), ucast (drop_bit 24 v)]"

definition load32 :: "u8 list \<Rightarrow> 32 word" where
  "load32 bs =
     ucast (bs ! 0) OR push_bit 8 (ucast (bs ! 1)) OR push_bit 16 (ucast (bs ! 2))
       OR push_bit 24 (ucast (bs ! 3))"

text \<open>
  \<open>serialize\<close> has no \<open>throw\<close>: it returns a buffer for every message. The two length
  bytes are \<open>static_cast<uint8_t>\<close> of the string lengths, that is the lengths modulo
  256, and all the bytes of the string follow whatever the length.
\<close>

definition serialize :: "UnityMessage \<Rightarrow> u8 list" where
  "serialize msg =
     [ucast PROTOCOL_VERSION, ucast (type msg), of_nat (length (pin msg))]
     @ pin msg
     @ store32 (val msg)
     @ (if type msg = ERROR_STATE
        then of_nat (length (error msg)) # error msg
        else [])"

text \<open>
  \<open>data[i]\<close>: an unchecked read of the vector. \<open>copy_range\<close> is the pair of iterators
  \<open>data.begin() + a\<close>, \<open>data.begin() + b\<close> handed to \<open>assign\<close> and the four bytes
  handed to \<open>memcpy\<close>; both are reads as well.
\<close>

definition rd :: "u8 list \<Rightarrow> nat \<Rightarrow> failure + u8" where
  "rd data i = (if i < length data then Inr (data ! i) else Inl OutOfBounds)"

definition copy_range :: "u8 list \<Rightarrow> nat \<Rightarrow> nat \<Rightarrow> failure + u8 list" where
  "copy_range data a b = (if b \<le> length data then Inr (take (b - a) (drop a data)) else Inl OutOfBounds)"

definition and_then :: "failure + 'a \<Rightarrow> ('a \<Rightarrow> failure + 'b) \<Rightarrow> failure + 'b" where
  "and_then r f = (case r of Inl e \<Rightarrow> Inl e | Inr x \<Rightarrow> f x)"

text \<open>
  \<open>deserialize\<close>, statement by statement. A default-constructed \<open>UnityMessage\<close> has
  empty \<open>pin\<close> and \<open>error\<close>; \<open>type\<close> and \<open>value\<close> are assigned before any return.
\<close>

definition deserialize :: "u8 list \<Rightarrow> failure + UnityMessage" where
  "deserialize data =
     (if length data < 3 then Inl (ProtocolError ''message too short'')
      else
        and_then (rd data 0) (\<lambda>version.
        if ucast version \<noteq> PROTOCOL_VERSION then Inl (ProtocolError ''protocol version mismatch'')
        else
          and_then (rd data 1) (\<lambda>ty.
          and_then (rd data 2) (\<lambda>pinLen.
          let offset = 3 in
          if offset + unat pinLen > length data then Inl (ProtocolError ''invalid pin length'')
          else
            and_then (copy_range data offset (offset + unat pinLen)) (\<lambda>p.
            let offset = offset + unat pinLen in
            if offset + 4 > length data then Inl (ProtocolError ''message truncated at value'')
            else
              and_then (copy_range data offset (offset + 4)) (\<lambda>vbytes.
              let msg = \<lparr>type = ucast ty, pin = p, val = load32 vbytes, error = []\<rparr>;
                  offset = offset + 4 in
              if type msg = ERROR_STATE \<and> offset < length data then
                and_then (rd data offset) (\<lambda>errorLen.
                let offset = offset + 1 in
                if offset + unat errorLen \<le> length data then
                  and_then (copy_range data offset (offset + unat errorLen)) (\<lambda>e.
                  Inr (msg\<lparr>error := e\<rparr>))
                else Inr msg)
              else Inr msg))))))"

text \<open>
  The message \<open>deserialize\<close> assembles from a buffer that has passed the three length
  checks, before the optional error text is read.
\<close>

definition decoded :: "u8 list \<Rightarrow> UnityMessage" where
  "decoded data =
     \<lparr>type = ucast (data ! 1), pin = take (unat (data ! 2)) (drop 3 data),
      val = load32 (take 4 (drop (3 + unat (data ! 2)) data)), error = []\<rparr>"

section \<open>Comparisons of floats\<close>

text \<open>
  The client compares floats with constants (\<open>msg.value > 0\<close>, \<open>value == -1.0f\<close>,
  \<open>value == 1000.0f\<close>). On the IEEE-754 single-precision bit pattern: a NaN has all
  exponent bits set and a non-zero fraction and compares false with everything; the two
  zeros are equal; otherwise equality is equality of the bits, and a value is greater than
  zero when it is not a zero and its sign bit is clear.
\<close>

definition is_nan :: "float32 \<Rightarrow> bool" where
  "is_nan x = (x AND 0x7F800000 = 0x7F800000 \<and> x AND 0x007FFFFF \<noteq> 0)"

definition is_zero :: "float32 \<Rightarrow> bool" where
  "is_zero x = (x AND 0x7FFFFFFF = 0)"

definition float_eq :: "float32 \<Rightarrow> float32 \<Rightarrow> bool" where
  "float_eq a b = (\<not> is_nan a \<and> \<not> is_nan b \<and> (a = b \<or> is_zero a \<and> is_zero b))"

definition float_gt_zero :: "float32 \<Rightarrow> bool" where
  "float_gt_zero x = (\<not> is_nan x \<and> \<not> is_zero x \<and> x AND 0x80000000 = 0)"

text \<open>The float literals of the program: \<open>0.0f\<close>, \<open>-1.0f\<close>, \<open>1000.0f\<close>, and \<open>5.0f\<close>.\<close>

abbreviation f_zero :: float32 where "f_zero \<equiv> 0"
abbreviation f_minus_one :: float32 where "f_minus_one \<equiv> 0xBF800000"
abbreviation f_thousand :: float32 where "f_thousand \<equiv> 0x447A0000"
abbreviation f_five :: float32 where "f_five \<equiv> 0x40A00000"

section \<open>Sensor.h, Sensor.cpp\<close>

text \<open>
  A \<open>std::string\<close> is its bytes. The sensor's own \<open>m_client\<close> is never connected by
  the main window and is left out.
\<close>

type_synonym str = "u8 list"

record Sensor =
  m_pin :: str
  m_sensorConnected :: bool
  m_lastValue :: float32
  m_history :: "float32 list"

abbreviation MAX_HISTORY :: nat where "MAX_HISTORY \<equiv> 100"

definition new_Sensor :: "str \<Rightarrow> Sensor" where
  "new_Sensor p = \<lparr>m_pin = p, m_sensorConnected = False, m_lastValue = f_zero, m_history = []\<rparr>"

definition setConnected :: "bool \<Rightarrow> Sensor \<Rightarrow> Sensor" where
  "setConnected state s = s\<lparr>m_sensorConnected := state\<rparr>"

text \<open>\<open>pop_front\<close> drops the first element of the deque, \<open>push_back\<close> appends.\<close>

definition updateValue :: "Sensor \<Rightarrow> float32 \<Rightarrow> Sensor" where
  "updateValue s v =
     (let s1 = s\<lparr>m_lastValue := v\<rparr>;
          s2 = (if length (m_history s1) \<ge> MAX_HISTORY
                then s1\<lparr>m_history := tl (m_history s1)\<rparr> else s1)
      in s2\<lparr>m_history := m_history s2 @ [v]\<rparr>)"

section \<open>TCPClient.h, TCPClient.cpp\<close>

text \<open>
  The state of a client. The socket library is outside the program; of the socket the
  model keeps what the client asks of it: \<open>sock_connected\<close> is the answer of
  \<open>m_client->IsConnected()\<close>, \<open>sock_fail\<close> says whether a \<open>Write\<close> fails
  (\<open>Error()\<close> or a short \<open>LastCount()\<close>), and \<open>sock_out\<close> are the bytes written so
  far. \<open>m_onData\<close> is the callback: \<open>None\<close> when none is installed, and otherwise the
  pin captured by the closure that the main window installs, which queues a thread event
  carrying that pin and the value for the main window.
\<close>

record TCPClient =
  sock_connected :: bool
  sock_fail :: bool
  sock_out :: "u8 list"
  m_connected :: bool
  m_handshakeComplete :: bool
  m_onData :: "str option"

type_synonym thread_event = "str \<times> float32"

datatype wxSocketNotify =
  wxSOCKET_INPUT "u8 list" | wxSOCKET_OUTPUT | wxSOCKET_CONNECTION | wxSOCKET_LOST

text \<open>An invocation \<open>if (m_onData) m_onData(v)\<close>: the thread events it queues.\<close>

definition call_onData :: "TCPClient \<Rightarrow> float32 \<Rightarrow> thread_event list" where
  "call_onData s v = (case m_onData s of None \<Rightarrow> [] | Some p \<Rightarrow> [(p, v)])"

definition Write :: "TCPClient \<Rightarrow> u8 list \<Rightarrow> bool \<times> TCPClient" where
  "Write s bytes =
     (if sock_fail s then (False, s) else (True, s\<lparr>sock_out := sock_out s @ bytes\<rparr>))"

text \<open>
  \<open>sendMessage\<close>: the size as a \<open>uint32_t\<close>, then the data. \<open>serialize\<close> throws
  nothing, so the \<open>catch\<close> clause has no branch here.
\<close>

definition sendMessage :: "TCPClient \<Rightarrow> UnityMessage \<Rightarrow> bool \<times> TCPClient" where
  "sendMessage s msg =
     (if \<not> sock_connected s then (False, s)
      else
        let data = serialize msg;
            size = (of_nat (length data) :: 32 word);
            (ok1, s1) = Write s (store32 size)
        in if \<not> ok1 then (False, s1)
           else let (ok2, s2) = Write s1 data
                in if \<not> ok2 then (False, s2) else (True, s2))"

text \<open>
  \<open>sendPinRequest\<close> and the connection event build their message from a
  default-initialised \<open>UnityMessage\<close>, whose \<open>value\<close> is never assigned: the argument
  \<open>u\<close> is that indeterminate value.
\<close>

definition sendPinRequest :: "float32 \<Rightarrow> TCPClient \<Rightarrow> str \<Rightarrow> bool \<times> TCPClient" where
  "sendPinRequest u s p =
     (if \<not> m_connected s \<or> \<not> m_handshakeComplete s then (False, s)
      else sendMessage s \<lparr>type = PIN_REQUEST, pin = p, val = u, error = []\<rparr>)"

text \<open>
  \<open>handleIncomingData\<close>. The argument \<open>data\<close> is the vector after the two \<open>Read\<close>
  calls. The result is the new state and the thread events queued by the callback. A
  \<open>ProtocolError\<close> of \<open>deserialize\<close> is caught here and only logged (the call of
  \<open>disconnect\<close> in the handler is commented out).
\<close>

definition handleIncomingData :: "TCPClient \<Rightarrow> u8 list \<Rightarrow> TCPClient \<times> thread_event list" where
  "handleIncomingData s data =
     (case deserialize data of
        Inl e \<Rightarrow> (s, [])
      | Inr msg \<Rightarrow>
          if type msg = ERROR_STATE then (s, call_onData s f_minus_one)
          else if type msg = PIN_RESPONSE then
            (if \<not> m_handshakeComplete s
             then (s\<lparr>m_connected := True, m_handshakeComplete := True\<rparr>, [])
             else if float_gt_zero (val msg) then (s, call_onData s f_thousand)
             else (s, call_onData s f_minus_one))
          else if type msg = SENSOR_DATA then
            (if m_connected s \<and> m_handshakeComplete s then (s, call_onData s (val msg))
             else (s, []))
          else (s, []))"


text \<open>
  \<open>onSocketEvent\<close>. No \<open>ProtocolError\<close> leaves \<open>handleIncomingData\<close>, so the
  \<open>catch\<close> clause of the input case has no branch here.
\<close>

definition onSocketEvent :: "float32 \<Rightarrow> TCPClient \<Rightarrow> wxSocketNotify \<Rightarrow> TCPClient \<times> thread_event list" where
  "onSocketEvent u s ev =
     (case ev of
        wxSOCKET_CONNECTION \<Rightarrow>
          (if sock_connected s
           then (snd (sendMessage s \<lparr>type = CONNECT, pin = [], val = u, error = []\<rparr>), [])
           else (s, []))
      | wxSOCKET_INPUT data \<Rightarrow>
          (if sock_connected s then
             let (s1, q) = handleIncomingData s data
             in (if \<not> m_handshakeComplete s1
                 then s1\<lparr>m_connected := True, m_handshakeComplete := True\<rparr> else s1, q)
           else (s, []))
      | wxSOCKET_LOST \<Rightarrow> (s\<lparr>m_connected := False, m_handshakeComplete := False\<rparr>, [])
      | wxSOCKET_OUTPUT \<Rightarrow> (s, []))"




text \<open>
  The socket library changes the state of the socket before it notifies the handler:
  the socket is connected at a connection event and closed at a lost event.
\<close>

definition deliver :: "float32 \<Rightarrow> TCPClient \<Rightarrow> wxSocketNotify \<Rightarrow> TCPClient \<times> thread_event list" where
  "deliver u s ev =
     onSocketEvent u
       (case ev of
          wxSOCKET_CONNECTION \<Rightarrow> s\<lparr>sock_connected := True\<rparr>
        | wxSOCKET_LOST \<Rightarrow> s\<lparr>sock_connected := False\<rparr>
        | _ \<Rightarrow> s)
       ev"




section \<open>MainFrame.h, MainFrame.cpp: the sensors and the clients of the main window\<close>

text \<open>
  Of the main window the model keeps the two vectors, the entries of the list box, the
  message boxes shown so far (text and caption) and the thread events queued for the
  window and not yet handled. The value label, the graph panel and the log file are
  write-only for the code modelled here and are left out.
\<close>

record MainFrame =
  m_sensors :: "Sensor list"
  m_clients :: "TCPClient list"
  m_sensorList :: "str list"
  boxes :: "(string \<times> string) list"
  queue :: "thread_event list"

definition wxMessageBox :: "string \<Rightarrow> string \<Rightarrow> MainFrame \<Rightarrow> MainFrame" where
  "wxMessageBox txt caption fr = fr\<lparr>boxes := boxes fr @ [(txt, caption)]\<rparr>"

text \<open>\<open>std::find_if\<close>: the index of the first match, or the length (\<open>end()\<close>).\<close>

fun find_if :: "('a \<Rightarrow> bool) \<Rightarrow> 'a list \<Rightarrow> nat" where
  "find_if P [] = 0"
| "find_if P (x # xs) = (if P x then 0 else Suc (find_if P xs))"


definition onSensorData :: "float32 \<Rightarrow> str \<Rightarrow> MainFrame \<Rightarrow> MainFrame" where
  "onSensorData v p fr =
     (let it = find_if (\<lambda>sensor. m_pin sensor = p) (m_sensors fr)
      in if it \<noteq> length (m_sensors fr)
         then fr\<lparr>m_sensors := (m_sensors fr)[it := updateValue (m_sensors fr ! it) v]\<rparr>
         else fr)"

definition onSensorUpdate :: "thread_event \<Rightarrow> MainFrame \<Rightarrow> MainFrame" where
  "onSensorUpdate evt fr =
     (let p = fst evt; v = snd evt
      in if float_eq v f_minus_one then wxMessageBox ''Invalid PIN'' ''Error'' fr
         else if float_eq v f_thousand then
           (if find_if (\<lambda>sensor. m_pin sensor = p) (m_sensors fr) = length (m_sensors fr)
            then fr\<lparr>m_sensorList := m_sensorList fr @ [p],
                    m_sensors := m_sensors fr @ [setConnected True (new_Sensor p)]\<rparr>
            else fr)
         else onSensorData v p fr)"



text \<open>
  The event loop: a socket event goes to the handler of the client that owns the socket,
  and the thread events its callback queues go to the end of the window's queue; a
  queued thread event is handled by \<open>onSensorUpdate\<close>.
\<close>

definition socket_event :: "float32 \<Rightarrow> nat \<Rightarrow> wxSocketNotify \<Rightarrow> MainFrame \<Rightarrow> MainFrame" where
  "socket_event u i ev fr =
     (if i < length (m_clients fr)
      then let (c, q) = deliver u (m_clients fr ! i) ev
           in fr\<lparr>m_clients := (m_clients fr)[i := c], queue := queue fr @ q\<rparr>
      else fr)"

definition handle_thread_event :: "MainFrame \<Rightarrow> MainFrame" where
  "handle_thread_event fr =
     (case queue fr of [] \<Rightarrow> fr | evt # rest \<Rightarrow> onSensorUpdate evt (fr\<lparr>queue := rest\<rparr>))"

text \<open>
  The lifecycle states of the specification are not variables of the program. A
  connection is streaming when its client is connected with the handshake complete and
  the main window holds a connected sensor for its pin: from then on sensor data reaches
  that sensor.
\<close>

definition streaming :: "nat \<Rightarrow> str \<Rightarrow> MainFrame \<Rightarrow> bool" where
  "streaming i p fr =
     (i < length (m_clients fr) \<and> m_connected (m_clients fr ! i)
      \<and> m_handshakeComplete (m_clients fr ! i)
      \<and> list_ex (\<lambda>sensor. m_pin sensor = p \<and> m_sensorConnected sensor) (m_sensors fr))"

section \<open>The codec: closed forms\<close>

lemma load32_store32: "load32 (store32 v) = v"
proof (rule bit_eqI)
  fix n assume "possible_bit TYPE(32 word) n"
  then have n: "n < 32" by (simp add: possible_bit_word)
  consider "n < 8" | "8 \<le> n" "n < 16" | "16 \<le> n" "n < 24" | "24 \<le> n" "n < 32"
    using n by linarith
  then show "bit (load32 (store32 v)) n = bit v n"
    by cases (auto simp add: load32_def store32_def bit_simps)
qed

lemma length_store32: "length (store32 v) = 4"
  by (simp add: store32_def)

lemma unat_length_byte: "n \<le> 255 \<Longrightarrow> unat (of_nat n :: u8) = n"
  by (simp add: unat_of_nat take_bit_nat_eq_self)

lemma ucast_type_byte: "t \<le> 255 \<Longrightarrow> ucast (ucast (t::32 word) :: u8) = t"
proof -
  assume "t \<le> 255"
  then have "unat t < 2 ^ 8" by (simp add: word_le_nat_alt)
  then have "take_bit 8 (unat t) = unat t" by (simp only: take_bit_nat_eq_self)
  then show ?thesis
    by (simp add: word_unat_eq_iff unsigned_ucast_eq unsigned_take_bit_eq)
qed

lemma ucast_byte_eq1: "(ucast (b::u8) :: 32 word) = 1 \<longleftrightarrow> b = 1"
proof -
  have "unat b < 2 ^ 32" using unsigned_less [of b, where 'a = nat] by simp
  then have "take_bit 32 (unat b) = unat b" by (simp only: take_bit_nat_eq_self)
  then show ?thesis by (simp add: word_unat_eq_iff unsigned_ucast_eq)
qed

lemma ucast_byte_eq4: "(ucast (b::u8) :: 32 word) = 4 \<longleftrightarrow> b = 4"
proof -
  have "unat b < 2 ^ 32" using unsigned_less [of b, where 'a = nat] by simp
  then have "take_bit 32 (unat b) = unat b" by (simp only: take_bit_nat_eq_self)
  then show ?thesis by (simp add: word_unat_eq_iff unsigned_ucast_eq)
qed

lemma type_byte_eq4: "t \<le> 255 \<Longrightarrow> (ucast (t::32 word) :: u8) = 4 \<longleftrightarrow> t = 4"
proof
  assume t: "t \<le> 255" and "(ucast t :: u8) = 4"
  then have "ucast (ucast t :: u8) = (ucast (4::u8) :: 32 word)" by simp
  with t show "t = 4" by (simp add: ucast_type_byte)
qed simp

lemma deserialize_eq:
  "deserialize data =
     (if length data < 3 then Inl (ProtocolError ''message too short'')
      else if data ! 0 \<noteq> 1 then Inl (ProtocolError ''protocol version mismatch'')
      else if 3 + unat (data ! 2) > length data then Inl (ProtocolError ''invalid pin length'')
      else if 7 + unat (data ! 2) > length data then Inl (ProtocolError ''message truncated at value'')
      else if data ! 1 = 4 \<and> 7 + unat (data ! 2) < length data
                \<and> 8 + unat (data ! 2) + unat (data ! (7 + unat (data ! 2))) \<le> length data
           then Inr ((decoded data)\<lparr>error := take (unat (data ! (7 + unat (data ! 2))))
                                                (drop (8 + unat (data ! 2)) data)\<rparr>)
           else Inr (decoded data))"
proof (cases "length data < 3")
  case True
  then show ?thesis by (simp add: deserialize_def)
next
  case len: False
  then have ne: "data \<noteq> []" by auto
  show ?thesis
  proof (cases "data ! 0 = 1")
    case False
    with len ne show ?thesis
      by (simp add: deserialize_def rd_def and_then_def ucast_byte_eq1)
  next
    case ver: True
    show ?thesis
    proof (cases "3 + unat (data ! 2) > length data")
      case True
      with len ne ver show ?thesis
        by (simp add: deserialize_def rd_def and_then_def ucast_byte_eq1)
    next
      case pl: False
      show ?thesis
      proof (cases "7 + unat (data ! 2) > length data")
        case True
        with len ne ver pl show ?thesis
          by (simp add: deserialize_def rd_def copy_range_def and_then_def ucast_byte_eq1)
      next
        case vl: False
        have a: "3 + unat (data ! 2) + 4 = 7 + unat (data ! 2)"
          and b: "3 + unat (data ! 2) + 4 + 1 = 8 + unat (data ! 2)" by simp_all
        from len ne ver pl vl show ?thesis
          unfolding deserialize_def rd_def copy_range_def and_then_def Let_def decoded_def a b
          by (simp add: ucast_byte_eq1 ucast_byte_eq4)
      qed
    qed
  qed
qed

lemma serialize_nth:
  "serialize m ! 0 = 1" "serialize m ! 1 = ucast (type m)"
  "serialize m ! 2 = of_nat (length (pin m))"
  by (simp_all add: serialize_def)

lemma length_serialize:
  "length (serialize m) =
     7 + length (pin m) + (if type m = ERROR_STATE then 1 + length (error m) else 0)"
  by (simp add: serialize_def length_store32)

lemma drop_header:
  "drop (3 + n) (a # b # c # xs) = drop n xs"
  "drop (7 + n) (a # b # c # xs) = drop (4 + n) xs"
  "drop (8 + n) (a # b # c # xs) = drop (5 + n) xs"
  by (simp_all add: eval_nat_numeral)

lemma nth_header: "(a # b # c # xs) ! (7 + n) = xs ! (4 + n)"
  by (simp add: eval_nat_numeral)

lemma nth_after_value:
  "length w = 4 \<Longrightarrow> rest \<noteq> [] \<Longrightarrow> (p @ w @ rest) ! (4 + length p) = hd rest"
  by (simp add: nth_append hd_conv_nth)

lemma drop_after_value:
  "length w = 4 \<Longrightarrow> drop (5 + length p) (p @ w @ rest) = tl rest"
  by (cases rest) simp_all

lemma decoded_frame:
  assumes "length p \<le> 255" "t \<le> 255"
  shows "decoded (1 # ucast t # of_nat (length p) # p @ store32 v @ rest)
         = \<lparr>type = t, pin = p, val = v, error = []\<rparr>"
  using assms
  by (simp add: decoded_def unat_length_byte ucast_type_byte length_store32 load32_store32
        drop_header)

lemma deserialize_frame:
  assumes p: "length p \<le> 255" and t: "t \<le> 255"
  shows "deserialize (1 # ucast t # of_nat (length p) # p @ store32 v @ rest) =
           Inr \<lparr>type = t, pin = p, val = v,
                error = (if t = ERROR_STATE \<and> rest \<noteq> [] \<and> 1 + unat (hd rest) \<le> length rest
                         then take (unat (hd rest)) (tl rest) else [])\<rparr>"
proof (cases "rest = []")
  case True
  with p t show ?thesis
    by (subst deserialize_eq)
      (simp add: decoded_frame [where rest = "[]", simplified] unat_length_byte length_store32)
next
  case False
  with p t show ?thesis
    by (subst deserialize_eq)
      (auto simp add: decoded_frame decoded_frame [where t = 4, simplified] unat_length_byte
          length_store32 nth_header nth_after_value drop_header drop_after_value type_byte_eq4
          drop_Suc)
qed

lemma serialize_Cons:
  "serialize m = 1 # ucast (type m) # of_nat (length (pin m)) # pin m @ store32 (val m)
       @ (if type m = ERROR_STATE then of_nat (length (error m)) # error m else [])"
  by (simp add: serialize_def)

lemma deserialize_in_bounds: "deserialize data \<noteq> Inl OutOfBounds"
  by (simp add: deserialize_eq)

lemma take_frame:
  assumes "length w = 4"
  shows "take (7 + length p + k) (a # b # c # p @ w @ tail) = a # b # c # p @ w @ take k tail"
proof -
  have "take (7 + length p + k) (a # b # c # p @ w @ tail)
        = a # b # c # take (4 + length p + k) (p @ w @ tail)"
    by (simp add: eval_nat_numeral)
  also have "take (4 + length p + k) (p @ w @ tail) = p @ w @ take k tail"
    using assms by simp
  finally show ?thesis .
qed

lemma short_prefix:
  assumes p: "length (pin m) \<le> 255" and n: "n < length (serialize m)"
    and short: "n < 7 + length (pin m)"
  shows "deserialize (take n (serialize m)) =
     (if n < 3 then Inl (ProtocolError ''message too short'')
      else if n < 3 + length (pin m) then Inl (ProtocolError ''invalid pin length'')
      else Inl (ProtocolError ''message truncated at value''))"
proof -
  let ?d = "take n (serialize m)"
  have len: "length ?d = n" using n by simp
  have n0: "3 \<le> n \<Longrightarrow> ?d ! 0 = 1"
    and n2: "3 \<le> n \<Longrightarrow> unat (?d ! 2) = length (pin m)"
    using p by (simp_all add: serialize_nth unat_length_byte)
  show ?thesis
  proof (cases "n < 3")
    case True
    then show ?thesis by (subst deserialize_eq) (simp only: len, simp)
  next
    case False
    then have "3 \<le> n" by simp
    with short show ?thesis
      by (subst deserialize_eq) (simp only: len n0 n2, simp)
  qed
qed

lemma long_prefix:
  assumes p: "length (pin m) \<le> 255" and e: "length (error m) \<le> 255"
    and n: "n < length (serialize m)" and long: "7 + length (pin m) \<le> n"
  shows "type m = ERROR_STATE" and "deserialize (take n (serialize m)) = Inr (m\<lparr>error := []\<rparr>)"
proof -
  show t: "type m = ERROR_STATE"
    using n long by (simp add: length_serialize split: if_splits)
  obtain k where k: "n = 7 + length (pin m) + k"
    using long by (metis le_Suc_ex)
  with n t have kl: "k \<le> length (error m)" by (simp add: length_serialize)
  let ?rest = "take k (of_nat (length (error m)) # error m :: u8 list)"
  have d: "take n (serialize m)
           = 1 # ucast (4 :: 32 word) # of_nat (length (pin m)) # pin m @ store32 (val m) @ ?rest"
    unfolding k by (subst serialize_Cons) (simp only: t take_frame length_store32, simp)
  have "deserialize (take n (serialize m))
        = Inr \<lparr>type = ERROR_STATE, pin = pin m, val = val m, error = []\<rparr>"
  proof (cases k)
    case 0
    then have r: "?rest = []" by simp
    show ?thesis
      unfolding d r using p by (subst deserialize_frame) simp_all
  next
    case (Suc j)
    then have r: "?rest = of_nat (length (error m)) # take j (error m)" by simp
    have "unat (of_nat (length (error m)) :: u8) = length (error m)"
      using e by (rule unat_length_byte)
    with kl Suc show ?thesis
      unfolding d r using p by (subst deserialize_frame) simp_all
  qed
  with t show "deserialize (take n (serialize m)) = Inr (m\<lparr>error := []\<rparr>)"
    by simp
qed

section \<open>Claims about the codec\<close>

text \<open>
  What the round trip gives for any message whose lengths and type fit their bytes: the
  error text is written for \<open>ERROR_STATE\<close> only.
\<close>

lemma deserialize_serialize:
  assumes "type m \<le> 255" and "length (pin m) \<le> 255"
    and "type m = ERROR_STATE \<longrightarrow> length (error m) \<le> 255"
  shows "deserialize (serialize m) =
           Inr (m\<lparr>error := (if type m = ERROR_STATE then error m else [])\<rparr>)"
  using assms
  by (simp add: serialize_Cons deserialize_frame unat_length_byte)

text \<open>
  Claim C1. A message of the five variants is a \<open>UnityMessage\<close> whose type is one of the
  five enumerators and whose error text is empty unless the type is \<open>ERROR_STATE\<close>, the
  only variant that has one; the program builds no other. For every such message whose
  pin and, for \<open>ERROR_STATE\<close>, error are at most 255 bytes long, and for every value,
  deserializing the serialized message gives the message back: same type, pin, value
  and error.
\<close>

theorem roundtrip:
  assumes "type m \<in> {CONNECT, PIN_REQUEST, PIN_RESPONSE, SENSOR_DATA, ERROR_STATE}"
    and "length (pin m) \<le> 255"
    and "type m = ERROR_STATE \<longrightarrow> length (error m) \<le> 255"
    and "type m \<noteq> ERROR_STATE \<longrightarrow> error m = []"
  shows "deserialize (serialize m) = Inr m"
proof -
  from assms(1) have t: "type m \<le> 255" by auto
  from t assms(2,3) have "deserialize (serialize m) =
      Inr (m\<lparr>error := (if type m = ERROR_STATE then error m else [])\<rparr>)"
    by (rule deserialize_serialize)
  with assms(4) show ?thesis by (cases "type m = ERROR_STATE") simp_all
qed

text \<open>An \<open>ERROR_STATE\<close> message with an error text, and a \<open>PIN_REQUEST\<close> with a pin.\<close>

theorem roundtrip_witness:
  "deserialize (serialize \<lparr>type = ERROR_STATE, pin = [49, 50], val = f_five, error = [120]\<rparr>)
     = Inr \<lparr>type = ERROR_STATE, pin = [49, 50], val = f_five, error = [120]\<rparr>
   \<and> deserialize (serialize \<lparr>type = PIN_REQUEST, pin = [49, 50, 51, 52], val = f_minus_one, error = []\<rparr>)
     = Inr \<lparr>type = PIN_REQUEST, pin = [49, 50, 51, 52], val = f_minus_one, error = []\<rparr>"
  using roundtrip [of "\<lparr>type = ERROR_STATE, pin = [49, 50], val = f_five, error = [120]\<rparr>"]
    roundtrip [of "\<lparr>type = PIN_REQUEST, pin = [49, 50, 51, 52], val = f_minus_one, error = []\<rparr>"]
  by simp

text \<open>
  Claim C2, as amended. \<open>serialize\<close> rejects nothing: for every message, whatever the
  lengths of its pin and error, it returns a buffer of 7 bytes plus the whole pin, plus
  for \<open>ERROR_STATE\<close> one byte and the whole error. The pin length byte holds the length
  modulo 256, and the error length byte likewise.
\<close>

theorem serialize_total:
  "length (serialize m) =
     7 + length (pin m) + (if type m = ERROR_STATE then 1 + length (error m) else 0)
   \<and> unat (serialize m ! 2) = length (pin m) mod 256
   \<and> take (length (pin m)) (drop 3 (serialize m)) = pin m
   \<and> drop (7 + length (pin m)) (serialize m)
       = (if type m = ERROR_STATE then of_nat (length (error m)) # error m else [])"
  by (simp add: serialize_Cons length_store32 unat_of_nat drop_header)

text \<open>A pin of 300 bytes: 307 bytes, length byte 44.\<close>

theorem serialize_total_witness:
  "length (serialize \<lparr>type = PIN_REQUEST, pin = replicate 300 49, val = f_zero, error = []\<rparr>) = 307
   \<and> unat (serialize \<lparr>type = PIN_REQUEST, pin = replicate 300 49, val = f_zero, error = []\<rparr> ! 2) = 44"
  using serialize_total [of "\<lparr>type = PIN_REQUEST, pin = replicate 300 49, val = f_zero, error = []\<rparr>"]
  by simp

text \<open>
  Claim C2 as stated fails: the message with a pin of 300 bytes is encoded, all 300 bytes
  of the pin behind a length byte of 44.
\<close>

theorem serialize_oversized_counterexample:
  "length (pin \<lparr>type = PIN_REQUEST, pin = replicate 300 49, val = f_zero, error = []\<rparr>) = 300
   \<and> serialize \<lparr>type = PIN_REQUEST, pin = replicate 300 49, val = f_zero, error = []\<rparr>
       = [1, 1, 44] @ replicate 300 49 @ [0, 0, 0, 0]"
  by (simp add: serialize_def store32_def)

text \<open>
  Claim C3, as amended. Let a message have a pin and an error of at most 255 bytes, and
  take the first \<open>n\<close> bytes of its encoding, \<open>n\<close> less than the full length. If the
  prefix ends before the end of the value (\<open>n < 7 + length pin\<close>), \<open>deserialize\<close>
  throws a \<open>ProtocolError\<close>: "message too short", "invalid pin length" or "message
  truncated at value". A longer strict prefix exists only for an \<open>ERROR_STATE\<close> message
  and cuts its error text: there \<open>deserialize\<close> throws nothing and returns the message
  with an empty error. No prefix makes it read outside the buffer.
\<close>

theorem prefix_decoding:
  assumes "length (pin m) \<le> 255" and "length (error m) \<le> 255"
    and "n < length (serialize m)"
  shows "deserialize (take n (serialize m)) =
     (if n < 3 then Inl (ProtocolError ''message too short'')
      else if n < 3 + length (pin m) then Inl (ProtocolError ''invalid pin length'')
      else if n < 7 + length (pin m) then Inl (ProtocolError ''message truncated at value'')
      else Inr (m\<lparr>error := []\<rparr>))
    \<and> (7 + length (pin m) \<le> n \<longrightarrow> type m = ERROR_STATE)
    \<and> deserialize (take n (serialize m)) \<noteq> Inl OutOfBounds"
proof (cases "n < 7 + length (pin m)")
  case True
  with assms show ?thesis
    by (simp add: short_prefix deserialize_in_bounds)
next
  case False
  then have "7 + length (pin m) \<le> n" by simp
  with assms long_prefix [of m n] show ?thesis
    by simp
qed

text \<open>A \<open>PIN_REQUEST\<close> with a pin of four bytes, cut inside the pin and inside the value.\<close>

theorem prefix_decoding_witness:
  "deserialize (take 5 (serialize \<lparr>type = PIN_REQUEST, pin = [49, 50, 51, 52], val = f_zero, error = []\<rparr>))
     = Inl (ProtocolError ''invalid pin length'')
   \<and> deserialize (take 9 (serialize \<lparr>type = PIN_REQUEST, pin = [49, 50, 51, 52], val = f_zero, error = []\<rparr>))
     = Inl (ProtocolError ''message truncated at value'')"
  using prefix_decoding [of "\<lparr>type = PIN_REQUEST, pin = [49, 50, 51, 52], val = f_zero, error = []\<rparr>" 5]
    prefix_decoding [of "\<lparr>type = PIN_REQUEST, pin = [49, 50, 51, 52], val = f_zero, error = []\<rparr>" 9]
  by (simp add: length_serialize)

text \<open>
  Claim C3 as stated fails: the encoding of an \<open>ERROR_STATE\<close> message with a one-byte
  error has 9 bytes, and its first 8 bytes decode to a message.
\<close>

theorem prefix_decoding_counterexample:
  "length (take 8 (serialize \<lparr>type = ERROR_STATE, pin = [], val = f_zero, error = [120]\<rparr>))
     < length (serialize \<lparr>type = ERROR_STATE, pin = [], val = f_zero, error = [120]\<rparr>)
   \<and> deserialize (take 8 (serialize \<lparr>type = ERROR_STATE, pin = [], val = f_zero, error = [120]\<rparr>))
       = Inr \<lparr>type = ERROR_STATE, pin = [], val = f_zero, error = []\<rparr>"
  by (simp add: serialize_def store32_def deserialize_eq decoded_def load32_def)

text \<open>
  Claim C10. \<open>deserialize\<close> does not validate the type byte: every buffer of at least
  three bytes with version byte 1 that holds the declared pin and the four bytes of the
  value decodes to a message whose type is the type byte, whatever its value; and every
  failure is one of the four exceptions of the short-buffer, version and truncation
  checks.
\<close>

theorem type_not_validated:
  "(3 \<le> length data \<and> data ! 0 = 1 \<and> 7 + unat (data ! 2) \<le> length data
      \<longrightarrow> (\<exists>msg. deserialize data = Inr msg \<and> type msg = ucast (data ! 1)))
   \<and> (deserialize data = Inl e \<longrightarrow>
        length data < 3 \<and> e = ProtocolError ''message too short''
        \<or> 3 \<le> length data \<and> data ! 0 \<noteq> 1 \<and> e = ProtocolError ''protocol version mismatch''
        \<or> 3 \<le> length data \<and> length data < 3 + unat (data ! 2) \<and> e = ProtocolError ''invalid pin length''
        \<or> 3 \<le> length data \<and> length data < 7 + unat (data ! 2)
            \<and> e = ProtocolError ''message truncated at value'')"
  by (subst (1 2) deserialize_eq) (auto simp add: decoded_def)

text \<open>The type byte 200 is outside 0..4 and is returned as the type.\<close>

theorem type_not_validated_witness:
  "\<exists>msg. deserialize [1, 200, 0, 0, 0, 0, 0] = Inr msg \<and> type msg = 200"
  using type_not_validated [of "[1, 200, 0, 0, 0, 0, 0]"]
  by simp

section \<open>The sensor history\<close>

lemma history_updateValue:
  "m_history (updateValue s v) =
     (if MAX_HISTORY \<le> length (m_history s) then tl (m_history s) else m_history s) @ [v]"
  by (simp add: updateValue_def Let_def)

lemma history_foldl:
  "m_history (foldl updateValue (new_Sensor p) vs) = drop (length vs - MAX_HISTORY) vs"
proof (induction vs rule: rev_induct)
  case Nil
  show ?case by (simp add: new_Sensor_def)
next
  case (snoc v vs)
  show ?case
  proof (cases "MAX_HISTORY \<le> length vs")
    case True
    then have "Suc (length vs) - MAX_HISTORY = Suc (length vs - MAX_HISTORY)" by simp
    with True snoc show ?thesis
      by (simp add: history_updateValue tl_drop drop_Suc)
  next
    case False
    with snoc show ?thesis
      by (simp add: history_updateValue)
  qed
qed

text \<open>
  Claim C8. After any sequence of \<open>updateValue\<close> calls on a new sensor the history is
  the last 100 values of the sequence, in the order of arrival, so it never holds more
  than 100 readings. A call on a history below the bound appends the reading; a call
  on a history of 100 readings drops exactly the oldest one and appends the reading,
  and the history still has 100 readings.
\<close>

theorem history_ring_buffer:
  "m_history (foldl updateValue (new_Sensor p) vs) = drop (length vs - MAX_HISTORY) vs
   \<and> length (m_history (foldl updateValue (new_Sensor p) vs)) \<le> MAX_HISTORY
   \<and> (length (m_history s) < MAX_HISTORY \<longrightarrow> m_history (updateValue s v) = m_history s @ [v])
   \<and> (length (m_history s) = MAX_HISTORY \<longrightarrow>
        m_history (updateValue s v) = tl (m_history s) @ [v]
        \<and> length (m_history (updateValue s v)) = MAX_HISTORY)"
  by (simp add: history_foldl history_updateValue)

text \<open>Three readings on a new sensor, and one reading on a full history.\<close>

theorem history_ring_buffer_witness:
  "m_history (foldl updateValue (new_Sensor [49]) [1, 2, 3]) = [1, 2, 3]
   \<and> m_history (updateValue \<lparr>m_pin = [49], m_sensorConnected = True, m_lastValue = 7,
                              m_history = 7 # replicate 99 8\<rparr> 9) = replicate 99 8 @ [9]"
  using history_ring_buffer [of "[49]" "[1, 2, 3]"
      "\<lparr>m_pin = [49], m_sensorConnected = True, m_lastValue = 7, m_history = 7 # replicate 99 8\<rparr>" 9]
  by simp

section \<open>The client: handshake\<close>

lemma input_before_handshake:
  assumes "sock_connected s" and "\<not> m_handshakeComplete s"
  shows "fst (onSocketEvent u s (wxSOCKET_INPUT data))
         = s\<lparr>m_connected := True, m_handshakeComplete := True\<rparr>"
  using assms
  by (simp add: onSocketEvent_def handleIncomingData_def call_onData_def Let_def
        split: sum.splits option.splits prod.splits)

lemma sendPinRequest_blocked:
  "\<not> m_handshakeComplete s \<Longrightarrow> sendPinRequest u s p = (False, s)"
  by (simp add: sendPinRequest_def)

lemma sendPinRequest_open:
  "sendPinRequest u (s\<lparr>m_connected := True, m_handshakeComplete := True\<rparr>) p
   = sendMessage (s\<lparr>m_connected := True, m_handshakeComplete := True\<rparr>)
       \<lparr>type = PIN_REQUEST, pin = p, val = u, error = []\<rparr>"
  by (simp add: sendPinRequest_def)

lemma sendMessage_ok:
  "sock_connected s \<Longrightarrow> \<not> sock_fail s \<Longrightarrow>
   sendMessage s msg
   = (True, s\<lparr>sock_out := sock_out s @ store32 (of_nat (length (serialize msg))) @ serialize msg\<rparr>)"
  by (simp add: sendMessage_def Write_def Let_def)

lemma other_events_keep_handshake:
  "\<not> m_handshakeComplete s \<Longrightarrow> (\<forall>data. ev \<noteq> wxSOCKET_INPUT data) \<Longrightarrow>
   \<not> m_handshakeComplete (fst (onSocketEvent u s ev))"
  by (cases ev)
    (simp_all add: onSocketEvent_def sendMessage_def Write_def Let_def split: prod.splits)

lemma connection_event_flags:
  "m_handshakeComplete (fst (onSocketEvent u s wxSOCKET_CONNECTION)) = m_handshakeComplete s"
  "m_connected (fst (onSocketEvent u s wxSOCKET_CONNECTION)) = m_connected s"
  by (simp_all add: onSocketEvent_def sendMessage_def Write_def Let_def split: prod.splits)

text \<open>
  Claim C4. Let the socket be connected and the handshake not complete. Then
  \<open>sendPinRequest\<close> returns false and leaves the client as it is (nothing is
  written), also after the connection event; no event other than an input event makes
  the handshake complete; the input event does, whatever bytes it delivers, and sets
  the connected flag as well. After it \<open>sendPinRequest\<close> passes its guard and is
  \<open>sendMessage\<close> of the pin request, which on a socket whose writes succeed returns
  true and writes the size and the encoded request.
\<close>

theorem handshake_gate:
  assumes "sock_connected s" and "\<not> m_handshakeComplete s"
  shows "sendPinRequest u1 s p = (False, s)
    \<and> sendPinRequest u1 (fst (onSocketEvent u s wxSOCKET_CONNECTION)) p
        = (False, fst (onSocketEvent u s wxSOCKET_CONNECTION))
    \<and> ((\<forall>data. ev \<noteq> wxSOCKET_INPUT data) \<longrightarrow> \<not> m_handshakeComplete (fst (onSocketEvent u s ev)))
    \<and> fst (onSocketEvent u s (wxSOCKET_INPUT data))
        = s\<lparr>m_connected := True, m_handshakeComplete := True\<rparr>
    \<and> sendPinRequest u1 (fst (onSocketEvent u s (wxSOCKET_INPUT data))) p
        = sendMessage (s\<lparr>m_connected := True, m_handshakeComplete := True\<rparr>)
            \<lparr>type = PIN_REQUEST, pin = p, val = u1, error = []\<rparr>
    \<and> (\<not> sock_fail s \<longrightarrow>
         sendPinRequest u1 (fst (onSocketEvent u s (wxSOCKET_INPUT data))) p
         = (True, s\<lparr>m_connected := True, m_handshakeComplete := True,
                    sock_out := sock_out s
                      @ store32 (of_nat (length (serialize \<lparr>type = PIN_REQUEST, pin = p, val = u1, error = []\<rparr>)))
                      @ serialize \<lparr>type = PIN_REQUEST, pin = p, val = u1, error = []\<rparr>\<rparr>))"
  using assms
  by (simp add: sendPinRequest_blocked connection_event_flags other_events_keep_handshake
        input_before_handshake sendPinRequest_open sendMessage_ok)

text \<open>
  A client waiting for the handshake: the connection event leaves it waiting, and a
  \<open>SENSOR_DATA\<close> message as first input completes the handshake.
\<close>

theorem handshake_gate_witness:
  "sendPinRequest 0 \<lparr>sock_connected = True, sock_fail = False, sock_out = [], m_connected = False,
       m_handshakeComplete = False, m_onData = Some [49]\<rparr> [49]
     = (False, \<lparr>sock_connected = True, sock_fail = False, sock_out = [], m_connected = False,
       m_handshakeComplete = False, m_onData = Some [49]\<rparr>)
   \<and> \<not> m_handshakeComplete (fst (onSocketEvent 0 \<lparr>sock_connected = True, sock_fail = False,
       sock_out = [], m_connected = False, m_handshakeComplete = False, m_onData = Some [49]\<rparr>
       wxSOCKET_CONNECTION))
   \<and> fst (onSocketEvent 0 \<lparr>sock_connected = True, sock_fail = False, sock_out = [],
       m_connected = False, m_handshakeComplete = False, m_onData = Some [49]\<rparr>
       (wxSOCKET_INPUT [1, 3, 0, 0, 0, 0, 0]))
     = \<lparr>sock_connected = True, sock_fail = False, sock_out = [], m_connected = True,
       m_handshakeComplete = True, m_onData = Some [49]\<rparr>
   \<and> sendPinRequest 0 (fst (onSocketEvent 0 \<lparr>sock_connected = True, sock_fail = False, sock_out = [],
       m_connected = False, m_handshakeComplete = False, m_onData = Some [49]\<rparr>
       (wxSOCKET_INPUT [1, 3, 0, 0, 0, 0, 0]))) [49]
     = (True, \<lparr>sock_connected = True, sock_fail = False,
         sock_out = [8, 0, 0, 0, 1, 1, 1, 49, 0, 0, 0, 0], m_connected = True,
         m_handshakeComplete = True, m_onData = Some [49]\<rparr>)"
  using handshake_gate [where s = "\<lparr>sock_connected = True, sock_fail = False, sock_out = [],
       m_connected = False, m_handshakeComplete = False, m_onData = Some [49]\<rparr>"
      and ?u1.0 = 0 and p = "[49]" and u = 0 and ev = wxSOCKET_CONNECTION
      and data = "[1, 3, 0, 0, 0, 0, 0]"]
  by (simp add: serialize_def store32_def onSocketEvent_def sendMessage_def Write_def
        sendPinRequest_def)

text \<open>
  Claim C9. Let the socket be connected and the handshake not complete. An input event
  whose bytes \<open>deserialize\<close> rejects still sets the connected and the
  handshake-complete flags (and queues no thread event), so that \<open>sendPinRequest\<close>
  then passes its guard and, on a socket whose writes succeed, returns true.
\<close>

theorem parse_failure_completes_handshake:
  assumes "sock_connected s" and "\<not> m_handshakeComplete s" and "deserialize data = Inl e"
  shows "onSocketEvent u s (wxSOCKET_INPUT data)
           = (s\<lparr>m_connected := True, m_handshakeComplete := True\<rparr>, [])
    \<and> sendPinRequest u1 (fst (onSocketEvent u s (wxSOCKET_INPUT data))) p
        = sendMessage (s\<lparr>m_connected := True, m_handshakeComplete := True\<rparr>)
            \<lparr>type = PIN_REQUEST, pin = p, val = u1, error = []\<rparr>
    \<and> (\<not> sock_fail s \<longrightarrow> fst (sendPinRequest u1 (fst (onSocketEvent u s (wxSOCKET_INPUT data))) p))"
proof -
  from assms have "onSocketEvent u s (wxSOCKET_INPUT data)
           = (s\<lparr>m_connected := True, m_handshakeComplete := True\<rparr>, [])"
    by (simp add: onSocketEvent_def handleIncomingData_def)
  with assms show ?thesis
    by (simp add: sendPinRequest_open sendMessage_ok)
qed

text \<open>Three bytes with version 2 are rejected, and the handshake is complete after them.\<close>

theorem parse_failure_completes_handshake_witness:
  "onSocketEvent 0 \<lparr>sock_connected = True, sock_fail = False, sock_out = [], m_connected = False,
       m_handshakeComplete = False, m_onData = Some [49]\<rparr> (wxSOCKET_INPUT [2, 0, 0])
     = (\<lparr>sock_connected = True, sock_fail = False, sock_out = [], m_connected = True,
       m_handshakeComplete = True, m_onData = Some [49]\<rparr>, [])
   \<and> fst (sendPinRequest 0 (fst (onSocketEvent 0 \<lparr>sock_connected = True, sock_fail = False,
       sock_out = [], m_connected = False, m_handshakeComplete = False, m_onData = Some [49]\<rparr>
       (wxSOCKET_INPUT [2, 0, 0]))) [49])"
  using parse_failure_completes_handshake [where s = "\<lparr>sock_connected = True, sock_fail = False,
       sock_out = [], m_connected = False, m_handshakeComplete = False, m_onData = Some [49]\<rparr>"
      and data = "[2, 0, 0]" and e = "ProtocolError ''protocol version mismatch''"
      and u = 0 and ?u1.0 = 0 and p = "[49]"]
  by (simp add: deserialize_eq sendMessage_def Write_def sendPinRequest_def Let_def)

section \<open>The main window: outcomes, errors, registry\<close>


lemma find_if_le: "find_if P xs \<le> length xs"
  by (induction xs) simp_all

lemma find_if_end: "find_if P xs = length xs \<longleftrightarrow> \<not> list_ex P xs"
  using find_if_le [of P] by (induction xs) (auto simp add: Suc_le_eq)


lemma input_undecodable:
  assumes "sock_connected s" and "deserialize data = Inl e"
  shows "onSocketEvent u s (wxSOCKET_INPUT data)
         = (if m_handshakeComplete s then s
            else s\<lparr>m_connected := True, m_handshakeComplete := True\<rparr>, [])"
  using assms by (simp add: onSocketEvent_def handleIncomingData_def)

lemma deliver_input: "deliver u s (wxSOCKET_INPUT data) = onSocketEvent u s (wxSOCKET_INPUT data)"
  by (simp add: deliver_def)
text \<open>What streaming means: a sample that is not one of the two signal values is recorded.\<close>

lemma streaming_sample:
  assumes "streaming i p fr" and "sock_connected (m_clients fr ! i)"
    and "m_onData (m_clients fr ! i) = Some p" and "queue fr = []"
    and "deserialize data = Inr msg" and "type msg = SENSOR_DATA"
    and "\<not> float_eq (val msg) f_minus_one" and "\<not> float_eq (val msg) f_thousand"
  shows "handle_thread_event (socket_event u i (wxSOCKET_INPUT data) fr)
         = fr\<lparr>m_sensors := (m_sensors fr)
               [find_if (\<lambda>sensor. m_pin sensor = p) (m_sensors fr)
                  := updateValue (m_sensors fr ! find_if (\<lambda>sensor. m_pin sensor = p) (m_sensors fr))
                       (val msg)]\<rparr>"
proof -
  from assms(1) have "list_ex (\<lambda>sensor. m_pin sensor = p) (m_sensors fr)"
    by (auto simp add: streaming_def list_ex_iff)
  then have "find_if (\<lambda>sensor. m_pin sensor = p) (m_sensors fr) \<noteq> length (m_sensors fr)"
    by (simp add: find_if_end)
  with assms show ?thesis
    by (simp add: streaming_def socket_event_def deliver_input onSocketEvent_def
          handleIncomingData_def call_onData_def handle_thread_event_def onSensorUpdate_def
          onSensorData_def Let_def)
qed







text \<open>
  Claim C6, as amended. A \<open>ProtocolError\<close> of \<open>deserialize\<close> raised while an input
  event of a connected client is handled is caught inside the data handler of that
  client and goes no further. It is not turned into a close or an error signal: the
  socket stays connected, a set connected flag stays set (a first input event still
  sets the connected and handshake-complete flags), and no thread event is queued. No
  other client, no sensor and no message box of the window is affected.
\<close>

theorem codec_error_swallowed:
  assumes "i < length (m_clients fr)" and "sock_connected (m_clients fr ! i)"
    and "deserialize data = Inl e"
  shows "socket_event u i (wxSOCKET_INPUT data) fr
           = fr\<lparr>m_clients := (m_clients fr)
                 [i := if m_handshakeComplete (m_clients fr ! i) then m_clients fr ! i
                       else (m_clients fr ! i)\<lparr>m_connected := True, m_handshakeComplete := True\<rparr>]\<rparr>
    \<and> sock_connected (m_clients (socket_event u i (wxSOCKET_INPUT data) fr) ! i)
    \<and> (m_connected (m_clients fr ! i)
         \<longrightarrow> m_connected (m_clients (socket_event u i (wxSOCKET_INPUT data) fr) ! i))
    \<and> queue (socket_event u i (wxSOCKET_INPUT data) fr) = queue fr
    \<and> boxes (socket_event u i (wxSOCKET_INPUT data) fr) = boxes fr
    \<and> m_sensors (socket_event u i (wxSOCKET_INPUT data) fr) = m_sensors fr
    \<and> (\<forall>j. j \<noteq> i \<longrightarrow>
          m_clients (socket_event u i (wxSOCKET_INPUT data) fr) ! j = m_clients fr ! j)"
  using assms
  by (simp add: socket_event_def deliver_input input_undecodable)

text \<open>Two clients; the first receives three bytes that declare a pin of nine bytes.\<close>

theorem codec_error_swallowed_witness:
  "socket_event 0 0 (wxSOCKET_INPUT [1, 2, 9])
       \<lparr>m_sensors = [],
        m_clients = [\<lparr>sock_connected = True, sock_fail = False, sock_out = [], m_connected = False,
                      m_handshakeComplete = False, m_onData = Some [49]\<rparr>,
                     \<lparr>sock_connected = True, sock_fail = False, sock_out = [], m_connected = True,
                      m_handshakeComplete = True, m_onData = Some [50]\<rparr>],
        m_sensorList = [], boxes = [], queue = []\<rparr>
     = \<lparr>m_sensors = [],
        m_clients = [\<lparr>sock_connected = True, sock_fail = False, sock_out = [], m_connected = True,
                      m_handshakeComplete = True, m_onData = Some [49]\<rparr>,
                     \<lparr>sock_connected = True, sock_fail = False, sock_out = [], m_connected = True,
                      m_handshakeComplete = True, m_onData = Some [50]\<rparr>],
        m_sensorList = [], boxes = [], queue = []\<rparr>"
  using codec_error_swallowed [where i = 0 and u = 0 and data = "[1, 2, 9]"
      and e = "ProtocolError ''invalid pin length''"
      and fr = "\<lparr>m_sensors = [],
        m_clients = [\<lparr>sock_connected = True, sock_fail = False, sock_out = [], m_connected = False,
                      m_handshakeComplete = False, m_onData = Some [49]\<rparr>,
                     \<lparr>sock_connected = True, sock_fail = False, sock_out = [], m_connected = True,
                      m_handshakeComplete = True, m_onData = Some [50]\<rparr>],
        m_sensorList = [], boxes = [], queue = []\<rparr>"]
  by (simp add: deserialize_eq)

text \<open>
  Claim C6 as stated fails: an empty payload is rejected by \<open>deserialize\<close>, and the
  window with its one connected client is exactly as before: not closed, nothing
  signalled.
\<close>

theorem codec_error_counterexample:
  "deserialize [] = Inl (ProtocolError ''message too short'')
   \<and> socket_event 0 0 (wxSOCKET_INPUT [])
       \<lparr>m_sensors = [],
        m_clients = [\<lparr>sock_connected = True, sock_fail = False, sock_out = [], m_connected = True,
                      m_handshakeComplete = True, m_onData = Some [49]\<rparr>],
        m_sensorList = [], boxes = [], queue = []\<rparr>
     = \<lparr>m_sensors = [],
        m_clients = [\<lparr>sock_connected = True, sock_fail = False, sock_out = [], m_connected = True,
                      m_handshakeComplete = True, m_onData = Some [49]\<rparr>],
        m_sensorList = [], boxes = [], queue = []\<rparr>"
  by (simp add: deserialize_eq socket_event_def deliver_def onSocketEvent_def
        handleIncomingData_def)







end
